theory Spec2Isabelle
  imports Complex_Main "HOL-Library.AList"
begin

section \<open>Python values\<close>

text \<open>
  The dashboard is a script (\<^verbatim>\<open>eudr-app.py\<close>) that is run from top to bottom on every
  interaction. Its data are Python values: spreadsheet cells, the point dictionaries
  \<^verbatim>\<open>{'lat': .., 'lon': ..}\<close>, the decoded reply of the territory service and the exported
  GeoJSON dictionary. One datatype holds them all.

  A number is a float: a finite value, an infinity or NaN; NaN is also the missing-cell
  marker of the spreadsheet reader. Nothing is said here about how floats add or divide:
  float arithmetic is a parameter of the model (see \<open>arith\<close> below). The two signed
  zeros are one value, and an integer is taken as the float of the same value.

  A text that is only passed along (a name, a message, a text cell) is a \<open>string\<close>. A
  column label is a list of code points, because \<^verbatim>\<open>lower\<close> and \<^verbatim>\<open>strip\<close> act on code
  points; the keys of a point come from column labels and are labels too. \<open>u\<close> turns
  an ASCII literal into a label. A dictionary is an association list with unique keys,
  in insertion order.
\<close>

datatype number = Fin real | PosInf | NegInf | NaN

datatype py =
    PNone
  | PBool bool
  | PNum number
  | PStr string
  | PList "py list"
  | PDict "(string \<times> py) list"

datatype py_error =
    KeyError
  | TypeError
  | ZeroDivisionError
  | IndexError
  | RequestException
  | JSONDecodeError

type_synonym label = "int list"

definition u :: "string \<Rightarrow> label" where
  "u s = map of_char s"

type_synonym point = "(label \<times> py) list"

text \<open>\<^verbatim>\<open>dict(pairs)\<close> and dictionary displays: a later value for a key replaces the earlier
  one, the key keeps its first position.\<close>

definition py_dict :: "('k \<times> 'v) list \<Rightarrow> ('k \<times> 'v) list" where
  "py_dict kvs = foldl (\<lambda>d (k, v). AList.update k v d) [] kvs"

text \<open>\<^verbatim>\<open>d[k]\<close> on a dictionary.\<close>

definition dict_get :: "('k \<times> 'v) list \<Rightarrow> 'k \<Rightarrow> py_error + 'v" where
  "dict_get d k = (case map_of d k of None \<Rightarrow> Inl KeyError | Some v \<Rightarrow> Inr v)"

text \<open>\<^verbatim>\<open>v[k]\<close> with a string key \<open>k\<close> on any value: only a dictionary can answer; a list, a
  string, a number, a boolean and None raise TypeError.\<close>

fun getitem :: "py \<Rightarrow> string \<Rightarrow> py_error + py" where
  "getitem (PDict d) k = dict_get d k"
| "getitem _ k = Inl TypeError"

text \<open>\<^verbatim>\<open>for r in v\<close>: a list gives its elements, a dictionary its keys, a string its
  characters; the other values are not iterable.\<close>

fun py_iter :: "py \<Rightarrow> py_error + py list" where
  "py_iter (PList xs) = Inr xs"
| "py_iter (PDict d) = Inr (map (\<lambda>kv. PStr (fst kv)) d)"
| "py_iter (PStr s) = Inr (map (\<lambda>c. PStr [c]) s)"
| "py_iter _ = Inl TypeError"

text \<open>A list comprehension \<^verbatim>\<open>[f(x) for x in xs]\<close> whose body may raise: the first exception
  ends it and no list is built.\<close>

fun comprehension :: "('a \<Rightarrow> py_error + 'b) \<Rightarrow> 'a list \<Rightarrow> py_error + 'b list" where
  "comprehension f [] = Inr []"
| "comprehension f (x # xs) =
     (case f x of
        Inl e \<Rightarrow> Inl e
      | Inr y \<Rightarrow> (case comprehension f xs of Inl e \<Rightarrow> Inl e | Inr ys \<Rightarrow> Inr (y # ys)))"

text \<open>
  Float arithmetic, as the interpreter does it: \<open>float_sum\<close> is what the built-in
  \<^verbatim>\<open>sum\<close> returns for a list of numbers (0 for the empty list), \<open>float_div x n\<close> is
  \<^verbatim>\<open>x / n\<close> for a number \<open>x\<close> and a positive length \<open>n\<close>. Both round, and both can
  give an infinity or NaN. They are parameters: every statement below holds whatever
  they are.
\<close>

record arith =
  float_sum :: "number list \<Rightarrow> number"
  float_div :: "number \<Rightarrow> nat \<Rightarrow> number"

text \<open>An item that \<^verbatim>\<open>sum\<close> can add to a number: a float, or a boolean, which counts as 0
  or 1. Adding anything else raises TypeError.\<close>

fun summand :: "py \<Rightarrow> py_error + number" where
  "summand (PNum x) = Inr x"
| "summand (PBool b) = Inr (Fin (of_bool b))"
| "summand _ = Inl TypeError"

text \<open>\<^verbatim>\<open>sum(p[k] for p in points)\<close>: the generator is consumed from the left; each step
  reads \<^verbatim>\<open>p[k]\<close>, which raises KeyError when the key is missing, and adds it, which
  raises TypeError when it is not a number. The first exception ends the sum.\<close>

definition py_sum :: "arith \<Rightarrow> label \<Rightarrow> point list \<Rightarrow> py_error + number" where
  "py_sum ar k points =
     (case comprehension
             (\<lambda>p. case dict_get p k of Inl e \<Rightarrow> Inl e | Inr v \<Rightarrow> summand v) points of
        Inl e \<Rightarrow> Inl e
      | Inr xs \<Rightarrow> Inr (float_sum ar xs))"

text \<open>\<^verbatim>\<open>acc / len(points)\<close>.\<close>

definition num_div :: "arith \<Rightarrow> number \<Rightarrow> nat \<Rightarrow> py_error + number" where
  "num_div ar acc n = (if n = 0 then Inl ZeroDivisionError else Inr (float_div ar acc n))"

text \<open>\<^verbatim>\<open>sep.join(items)\<close>: every item must be a string.\<close>

fun py_join :: "string \<Rightarrow> py list \<Rightarrow> py_error + string" where
  "py_join sep [] = Inr []"
| "py_join sep [PStr s] = Inr s"
| "py_join sep (PStr s # v # vs) =
     (case py_join sep (v # vs) of Inl e \<Rightarrow> Inl e | Inr t \<Rightarrow> Inr (s @ sep @ t))"
| "py_join sep (_ # vs) = Inl TypeError"

text \<open>\<^verbatim>\<open>str(n)\<close> for a length.\<close>

function str_nat :: "nat \<Rightarrow> string" where
  "str_nat n =
     (if n < 10 then [char_of (48 + n)]
      else str_nat (n div 10) @ [char_of (48 + n mod 10)])"
  by pat_completeness auto
termination
  by (relation "measure id") auto

declare str_nat.simps [simp del]

section \<open>Session state\<close>

text \<open>\<^verbatim>\<open>st.session_state\<close>: the two point lists, both empty when the session starts
  (lines 13 to 16). The working set is the imported points followed by the manual ones
  (line 50).\<close>

record state =
  manual_points :: "point list"
  excel_points :: "point list"

definition initial_state :: state where
  "initial_state = \<lparr>manual_points = [], excel_points = []\<rparr>"

definition all_points :: "state \<Rightarrow> point list" where
  "all_points s = excel_points s @ manual_points s"

section \<open>Spreadsheet ingestion (lines 21 to 32)\<close>

text \<open>
  A data frame is its column labels and its rows. The reader pads a short row with
  missing cells, so a cell beyond the end of a row reads as NaN. The frame operations
  below are the ones the script calls, with the behaviour of the table library:
  selecting by label returns every column that carries the label (once per request),
  \<^verbatim>\<open>dropna\<close> removes the rows with a missing cell, \<^verbatim>\<open>head\<close> keeps the first rows,
  \<^verbatim>\<open>rename\<close> maps the labels through a dictionary and \<^verbatim>\<open>to_dict('records')\<close> turns
  each row into a dictionary from label to cell.
\<close>

record dataframe =
  columns :: "label list"
  rows :: "py list list"

datatype upload = Unreadable string | Sheet dataframe

datatype message = Success string | Error string

text \<open>
  \<^verbatim>\<open>str(c).lower()\<close>. An ASCII character lowers by the rule for A to Z, wherever it
  stands. What a character beyond ASCII lowers to is a parameter, \<open>lower_at s i\<close> for the
  character at position \<open>i\<close> of the string \<open>s\<close>: it may be several characters, and for
  the capital sigma it depends on the position. \<open>caseless\<close> is the value of the
  parameter for strings whose characters beyond ASCII have no case, such as the
  no-break space.
\<close>

definition lower :: "(label \<Rightarrow> nat \<Rightarrow> label) \<Rightarrow> label \<Rightarrow> label" where
  "lower lower_at s =
     concat (map (\<lambda>i. if s ! i < 128
                       then [if 65 \<le> s ! i \<and> s ! i \<le> 90 then s ! i + 32 else s ! i]
                       else lower_at s i) [0..<length s])"

definition caseless :: "label \<Rightarrow> nat \<Rightarrow> label" where
  "caseless s i = [s ! i]"

text \<open>\<^verbatim>\<open>.strip()\<close> removes from both ends the characters that are white space for the
  interpreter: U+0009 to U+000D, U+001C to U+0020, U+0085, U+00A0, U+1680, U+2000 to
  U+200A, U+2028, U+2029, U+202F, U+205F and U+3000.\<close>

definition is_space :: "int \<Rightarrow> bool" where
  "is_space c =
     ((9 \<le> c \<and> c \<le> 13) \<or> (28 \<le> c \<and> c \<le> 32) \<or> c = 133 \<or> c = 160 \<or> c = 5760 \<or>
      (8192 \<le> c \<and> c \<le> 8202) \<or> c = 8232 \<or> c = 8233 \<or> c = 8239 \<or> c = 8287 \<or>
      c = 12288)"

definition strip :: "label \<Rightarrow> label" where
  "strip s = rev (dropWhile is_space (rev (dropWhile is_space s)))"

text \<open>\<^verbatim>\<open>sub in s\<close> for strings.\<close>

fun contains :: "'a list \<Rightarrow> 'a list \<Rightarrow> bool" where
  "contains sub [] = (sub = [])"
| "contains sub (c # cs) = (take (length sub) (c # cs) = sub \<or> contains sub cs)"

definition cell_at :: "py list \<Rightarrow> nat \<Rightarrow> py" where
  "cell_at r i = (if i < length r then r ! i else PNum NaN)"

definition positions_of :: "label list \<Rightarrow> label \<Rightarrow> nat list" where
  "positions_of cols l = filter (\<lambda>i. cols ! i = l) [0..<length cols]"

definition select_columns :: "dataframe \<Rightarrow> label list \<Rightarrow> dataframe" where
  "select_columns df labels =
     (let idxs = concat (map (positions_of (columns df)) labels)
      in \<lparr>columns = map (\<lambda>i. columns df ! i) idxs,
          rows = map (\<lambda>r. map (cell_at r) idxs) (rows df)\<rparr>)"

definition isna :: "py \<Rightarrow> bool" where
  "isna v = (v = PNone \<or> v = PNum NaN)"

definition dropna :: "dataframe \<Rightarrow> dataframe" where
  "dropna df = df\<lparr>rows := filter (\<lambda>r. \<not> list_ex isna r) (rows df)\<rparr>"

definition head :: "nat \<Rightarrow> dataframe \<Rightarrow> dataframe" where
  "head n df = df\<lparr>rows := take n (rows df)\<rparr>"

definition rename_columns :: "(label \<times> label) list \<Rightarrow> dataframe \<Rightarrow> dataframe" where
  "rename_columns mapper df =
     df\<lparr>columns := map (\<lambda>c. case map_of mapper c of None \<Rightarrow> c | Some c' \<Rightarrow> c') (columns df)\<rparr>"

definition to_dict_records :: "dataframe \<Rightarrow> point list" where
  "to_dict_records df = map (\<lambda>r. py_dict (zip (columns df) r)) (rows df)"

text \<open>
  The upload block. \<^verbatim>\<open>uploaded_file\<close> is None when nothing is in the uploader;
  \<open>Unreadable e\<close> is a file on which the reader raises an exception with text \<open>e\<close>.
  \<^verbatim>\<open>next(.., None)\<close> gives the first matching label or None, and in the test
  \<^verbatim>\<open>lat_col and lon_col\<close> None and the empty string are false. The result is the new
  session state and the messages shown in the sidebar.
\<close>

definition ingest ::
  "(label \<Rightarrow> nat \<Rightarrow> label) \<Rightarrow> upload option \<Rightarrow> state \<Rightarrow> state \<times> message list" where
  "ingest lower_at uploaded_file s =
     (case uploaded_file of
        None \<Rightarrow> (s, [])
      | Some (Unreadable e) \<Rightarrow> (s, [Error (''Excel Error: '' @ e)])
      | Some (Sheet df) \<Rightarrow>
          (let df_upload = df\<lparr>columns := map (\<lambda>c. strip (lower lower_at c)) (columns df)\<rparr>
           in case (find (contains (u ''lat'')) (columns df_upload),
                    find (contains (u ''lon'')) (columns df_upload)) of
                (Some lat_col, Some lon_col) \<Rightarrow>
                  if lat_col \<noteq> [] \<and> lon_col \<noteq> [] then
                    (let clean_df = head 100 (dropna (select_columns df_upload [lat_col, lon_col]));
                         pts = to_dict_records
                                 (rename_columns
                                    (py_dict [(lat_col, u ''lat''), (lon_col, u ''lon'')]) clean_df)
                     in (s\<lparr>excel_points := pts\<rparr>,
                         [Success (''Loaded '' @ str_nat (length pts) @ '' points.'')]))
                  else (s, [])
              | _ \<Rightarrow> (s, [])))"

section \<open>Audit engine (lines 52 to 62)\<close>

text \<open>
  What \<^verbatim>\<open>requests.get(url, timeout=5)\<close> meets: no reply in time, no connection, or a
  reply with a status code and a body; the body is \<open>None\<close> when it is not JSON and the
  decoded value otherwise. \<^verbatim>\<open>.json()\<close> is called on the reply whatever its status.
\<close>

datatype response = Timeout | ConnectionFailed | Reply nat "py option"

definition get_json :: "response \<Rightarrow> py_error + py" where
  "get_json resp =
     (case resp of
        Timeout \<Rightarrow> Inl RequestException
      | ConnectionFailed \<Rightarrow> Inl RequestException
      | Reply status body \<Rightarrow> (case body of None \<Rightarrow> Inl JSONDecodeError | Some res \<Rightarrow> Inr res))"

text \<open>Line 59: \<^verbatim>\<open>[r['properties']['Name'] for r in res]\<close>.\<close>

definition name_of :: "py \<Rightarrow> py_error + py" where
  "name_of r =
     (case getitem r ''properties'' of Inl e \<Rightarrow> Inl e | Inr props \<Rightarrow> getitem props ''Name'')"

definition names_of :: "py \<Rightarrow> py_error + py list" where
  "names_of res = (case py_iter res of Inl e \<Rightarrow> Inl e | Inr rs \<Rightarrow> comprehension name_of rs)"

text \<open>Lines 56 to 60: the list starts empty and is assigned only when the request, the
  decoding and the whole comprehension went through; the bare \<^verbatim>\<open>except\<close> drops every
  exception.\<close>

definition indigenous_names :: "response \<Rightarrow> py list" where
  "indigenous_names resp =
     (case get_json resp of
        Inl e \<Rightarrow> []
      | Inr res \<Rightarrow> (case names_of res of Inl e \<Rightarrow> [] | Inr names \<Rightarrow> names))"

text \<open>The territory service is a parameter: \<open>net lat lon\<close> is what the request for the
  position \<open>lat,lon\<close> meets.\<close>

definition run_compliance_audit ::
  "arith \<Rightarrow> (number \<Rightarrow> number \<Rightarrow> response) \<Rightarrow> point list \<Rightarrow>
     py_error + (number \<times> number \<times> py list)" where
  "run_compliance_audit ar net points =
     (case py_sum ar (u ''lat'') points of
        Inl e \<Rightarrow> Inl e
      | Inr lat_sum \<Rightarrow>
     (case num_div ar lat_sum (length points) of
        Inl e \<Rightarrow> Inl e
      | Inr lat_c \<Rightarrow>
     (case py_sum ar (u ''lon'') points of
        Inl e \<Rightarrow> Inl e
      | Inr lon_sum \<Rightarrow>
     (case num_div ar lon_sum (length points) of
        Inl e \<Rightarrow> Inl e
      | Inr lon_c \<Rightarrow> Inr (lat_c, lon_c, indigenous_names (net lat_c lon_c))))))"

section \<open>Main display (lines 65 to 141)\<close>

text \<open>Lines 70, 71 and 114: a list is true when it is not empty.\<close>

definition poly_color :: "py list \<Rightarrow> nat list" where
  "poly_color tribes = (if tribes \<noteq> [] then [255, 75, 75, 150] else [34, 139, 34, 150])"

definition risk_label :: "py list \<Rightarrow> string" where
  "risk_label tribes = (if tribes \<noteq> [] then ''High Risk'' else ''Negligible Risk'')"

definition social_finding :: "py list \<Rightarrow> string" where
  "social_finding tribes = (if tribes \<noteq> [] then ''Risk Flagged'' else ''Negligible Risk'')"

text \<open>\<^verbatim>\<open>[p['lon'], p['lat']]\<close>.\<close>

definition lon_lat :: "point \<Rightarrow> py_error + py" where
  "lon_lat p =
     (case dict_get p (u ''lon'') of
        Inl e \<Rightarrow> Inl e
      | Inr lo \<Rightarrow> (case dict_get p (u ''lat'') of Inl e \<Rightarrow> Inl e | Inr la \<Rightarrow> Inr (PList [lo, la])))"

record deck =
  polygon :: "py list"
  fill_color :: "nat list"
  line_color :: "nat list"
  latitude :: number
  longitude :: number
  zoom :: nat
  map_style :: string
  tooltip :: string

record report_row =
  compliance_pillar :: string
  item_compared :: string
  comparison_reading :: string
  finding :: string
  legal_emphasis :: string

text \<open>Lines 102 to 131. The reading of the second row joins the names, which raises
  when one of them is not a string.\<close>

definition report_data :: "py list \<Rightarrow> nat \<Rightarrow> py_error + report_row list" where
  "report_data tribes n =
     (case (if tribes \<noteq> [] then py_join '', '' tribes else Inr ''Clear'') of
        Inl e \<Rightarrow> Inl e
      | Inr index \<Rightarrow> Inr
         [\<lparr>compliance_pillar = ''Environmental Baseline'',
           item_compared = ''Forest Cover Status'',
           comparison_reading = ''Satellite (Sentinel-2) Overlay'',
           finding = ''Zero forest-to-agriculture conversion detected.'',
           legal_emphasis = ''Satisfies Article 3(a): Ensures the plot is 'deforestation-free' relative to the 2020 cutoff.''\<rparr>,
          \<lparr>compliance_pillar = ''Social Legality'',
           item_compared = ''Land Use Rights'',
           comparison_reading = ''Indigenous Index: '' @ index,
           finding = social_finding tribes,
           legal_emphasis = ''Satisfies Article 3(b): Verifies production complies with local legislation and indigenous rights.''\<rparr>,
          \<lparr>compliance_pillar = ''Traceability'',
           item_compared = ''Geolocation Mandate'',
           comparison_reading = str_nat n @ '' Survey Vertices'',
           finding = ''WGS84 Compliant'',
           legal_emphasis = ''Satisfies Article 9: Provides specific geolocation coordinates required for EU market entry.''\<rparr>,
          \<lparr>compliance_pillar = ''Data Integrity'',
           item_compared = ''Geometry Topology'',
           comparison_reading = ''Closed Polygon Loop'',
           finding = ''Valid for TRACES'',
           legal_emphasis = ''Ensures the data structure is interoperable with EU Trade Control and Expert Systems (TRACES).''\<rparr>])"

text \<open>Line 137: the dictionary handed to \<^verbatim>\<open>json.dumps\<close>.\<close>

definition geojson :: "point list \<Rightarrow> string \<Rightarrow> py list \<Rightarrow> py_error + py" where
  "geojson pts risk tribes =
     (case comprehension lon_lat pts of
        Inl e \<Rightarrow> Inl e
      | Inr ring \<Rightarrow>
     (case pts of
        [] \<Rightarrow> Inl IndexError
      | p0 # _ \<Rightarrow>
     (case lon_lat p0 of
        Inl e \<Rightarrow> Inl e
      | Inr closing \<Rightarrow> Inr
         (PDict
           [(''type'', PStr ''FeatureCollection''),
            (''features'', PList
              [PDict
                [(''type'', PStr ''Feature''),
                 (''geometry'', PDict
                    [(''type'', PStr ''Polygon''),
                     (''coordinates'', PList [PList (ring @ [closing])])]),
                 (''properties'', PDict
                    [(''risk'', PStr risk), (''tribes'', PList tribes)])]])]))))"

text \<open>
  What one run of the script puts on the page below the sidebar: the placeholder note,
  the map, the report table, the download, and the exception that ended the run if one
  did. The script stops at the first uncaught exception, so what was drawn before it
  stays and what comes after it is missing.
\<close>

record screen =
  info :: "string option"
  chart :: "deck option"
  report :: "report_row list option"
  download :: "py option"
  exception :: "py_error option"

definition blank :: screen where
  "blank = \<lparr>info = None, chart = None, report = None, download = None, exception = None\<rparr>"

definition placeholder_text :: string where
  "placeholder_text =
     [CHR 0xF0, CHR 0x9F, CHR 0x91, CHR 0x8B] @
     '' **System Ready.** Upload an Excel file or add 3 manual points to generate the verification map.''"

definition main_display ::
  "arith \<Rightarrow> (number \<Rightarrow> number \<Rightarrow> response) \<Rightarrow> string \<Rightarrow> point list \<Rightarrow> screen" where
  "main_display ar net operator pts =
     (if 3 \<le> length pts then
        (case run_compliance_audit ar net pts of
           Inl e \<Rightarrow> blank\<lparr>exception := Some e\<rparr>
         | Inr (c_lat, c_lon, tribes) \<Rightarrow>
        (case comprehension lon_lat pts of
           Inl e \<Rightarrow> blank\<lparr>exception := Some e\<rparr>
         | Inr poly \<Rightarrow>
        (let drawn = blank\<lparr>chart := Some
               \<lparr>polygon = poly, fill_color = poly_color tribes, line_color = [0, 0, 0, 200],
                latitude = c_lat, longitude = c_lon, zoom = 14,
                map_style = ''mapbox://styles/mapbox/satellite-v9'',
                tooltip = ''Risk Level: '' @ risk_label tribes @ [CHR 0x0A] @
                          ''Operator: '' @ operator\<rparr>\<rparr>
         in case report_data tribes (length pts) of
              Inl e \<Rightarrow> drawn\<lparr>exception := Some e\<rparr>
            | Inr table \<Rightarrow>
           (let reported = drawn\<lparr>report := Some table\<rparr>
            in case geojson pts (risk_label tribes) tribes of
                 Inl e \<Rightarrow> reported\<lparr>exception := Some e\<rparr>
               | Inr gj \<Rightarrow> reported\<lparr>download := Some gj\<rparr>))))
      else blank\<lparr>info := Some placeholder_text\<rparr>)"

section \<open>Vocabulary of the specification\<close>

text \<open>A colour is \<open>[red, green, blue, alpha]\<close> with components from 0 to 255. It is in
  the red family when red is its strongest component, in the green family when green is,
  and translucent when its alpha is neither 0 nor 255.\<close>

definition red_family :: "nat list \<Rightarrow> bool" where
  "red_family c = (case c of [r, g, b, a] \<Rightarrow> g < r \<and> b < r | _ \<Rightarrow> False)"

definition green_family :: "nat list \<Rightarrow> bool" where
  "green_family c = (case c of [r, g, b, a] \<Rightarrow> r < g \<and> b < g | _ \<Rightarrow> False)"

definition translucent :: "nat list \<Rightarrow> bool" where
  "translucent c = (case c of [r, g, b, a] \<Rightarrow> 0 < a \<and> a < 255 | _ \<Rightarrow> False)"

text \<open>A point is a coordinate \<open>(a, b)\<close> when its \<^verbatim>\<open>'lat'\<close> entry is the float \<open>a\<close> and its
  \<^verbatim>\<open>'lon'\<close> entry is the float \<open>b\<close>: the Coordinate of the data model. \<open>ring_of\<close> is the
  list of (longitude, latitude) pairs of a list of coordinates.\<close>

definition is_coordinate :: "point \<Rightarrow> real \<times> real \<Rightarrow> bool" where
  "is_coordinate p c =
     (map_of p (u ''lat'') = Some (PNum (Fin (fst c))) \<and>
      map_of p (u ''lon'') = Some (PNum (Fin (snd c))))"

definition ring_of :: "(real \<times> real) list \<Rightarrow> py list" where
  "ring_of cs = map (\<lambda>c. PList [PNum (Fin (snd c)), PNum (Fin (fst c))]) cs"

text \<open>The territory names of the data model are strings. \<open>texts\<close> are the strings of a
  list of names, \<open>separated\<close> puts a separator between the strings of a list.\<close>

definition string_names :: "py list \<Rightarrow> bool" where
  "string_names vs = list_all (\<lambda>v. case v of PStr s \<Rightarrow> True | _ \<Rightarrow> False) vs"

definition texts :: "py list \<Rightarrow> string list" where
  "texts vs = map (\<lambda>v. case v of PStr s \<Rightarrow> s | _ \<Rightarrow> []) vs"

fun separated :: "string \<Rightarrow> string list \<Rightarrow> string" where
  "separated sep [] = []"
| "separated sep [s] = s"
| "separated sep (s # t # ts) = s @ sep @ separated sep (t # ts)"

text \<open>An element of the reply lacks the name field when it is not a dictionary whose
  \<^verbatim>\<open>'properties'\<close> entry is a dictionary with a \<^verbatim>\<open>'Name'\<close> entry.\<close>

definition lacks_name :: "py \<Rightarrow> bool" where
  "lacks_name r =
     (case r of
        PDict d \<Rightarrow>
          (case map_of d ''properties'' of
             Some (PDict props) \<Rightarrow> map_of props ''Name'' = None
           | _ \<Rightarrow> True)
      | _ \<Rightarrow> True)"

text \<open>The column names of an uploaded table after lowercasing and trimming, the position
  of the first element of a list that satisfies a test, and the points that the rows
  of a table give when column \<open>i\<close> is read as latitude and column \<open>j\<close> as longitude: the
  rows with a value in both columns, the first 100 of them, each as a point.\<close>

definition normalised :: "(label \<Rightarrow> nat \<Rightarrow> label) \<Rightarrow> dataframe \<Rightarrow> label list" where
  "normalised lower_at df = map (\<lambda>c. strip (lower lower_at c)) (columns df)"

fun first_index :: "('a \<Rightarrow> bool) \<Rightarrow> 'a list \<Rightarrow> nat option" where
  "first_index P [] = None"
| "first_index P (x # xs) = (if P x then Some 0 else map_option Suc (first_index P xs))"

definition first_rows :: "nat \<Rightarrow> nat \<Rightarrow> py list list \<Rightarrow> point list" where
  "first_rows i j rs =
     map (\<lambda>r. [(u ''lat'', cell_at r i), (u ''lon'', cell_at r j)])
       (take 100 (filter (\<lambda>r. \<not> isna (cell_at r i) \<and> \<not> isna (cell_at r j)) rs))"

text \<open>An arithmetic for the examples: sums and quotients without rounding. It is the
  arithmetic of the interpreter on the floats of the examples, whose sums and quotients
  are small integers.\<close>

definition exact_arith :: arith where
  "exact_arith =
     \<lparr>float_sum = foldl (\<lambda>a x. case (a, x) of (Fin p, Fin q) \<Rightarrow> Fin (p + q) | _ \<Rightarrow> NaN) (Fin 0),
      float_div = (\<lambda>x n. case x of Fin p \<Rightarrow> Fin (p / real n) | _ \<Rightarrow> x)\<rparr>"

section \<open>Risk classifier\<close>

text \<open>
  C1. The classifier is a two-way mapping on the territory-name list. A non-empty list
  gives the label High Risk, the fill colour 255, 75, 75 with alpha 150 (red family,
  translucent) and the finding Risk Flagged. The empty list gives Negligible Risk, the
  fill colour 34, 139, 34 with alpha 150 (green family, translucent) and the finding
  Negligible Risk. Every list is one of the two.
\<close>

theorem risk_classifier_two_way:
  "(tribes \<noteq> [] \<longrightarrow>
      risk_label tribes = ''High Risk'' \<and>
      poly_color tribes = [255, 75, 75, 150] \<and>
      red_family (poly_color tribes) \<and> translucent (poly_color tribes) \<and>
      social_finding tribes = ''Risk Flagged'') \<and>
   (tribes = [] \<longrightarrow>
      risk_label tribes = ''Negligible Risk'' \<and>
      poly_color tribes = [34, 139, 34, 150] \<and>
      green_family (poly_color tribes) \<and> translucent (poly_color tribes) \<and>
      social_finding tribes = ''Negligible Risk'')"
  by (simp add: risk_label_def poly_color_def social_finding_def red_family_def
      green_family_def translucent_def)

theorem risk_classifier_two_way_witness:
  "risk_label [PStr ''Sioux''] = ''High Risk'' \<and>
   poly_color [PStr ''Sioux''] = [255, 75, 75, 150] \<and>
   red_family (poly_color [PStr ''Sioux'']) \<and>
   social_finding [PStr ''Sioux''] = ''Risk Flagged'' \<and>
   risk_label [] = ''Negligible Risk'' \<and>
   poly_color [] = [34, 139, 34, 150] \<and>
   green_family (poly_color []) \<and>
   social_finding [] = ''Negligible Risk''"
  using risk_classifier_two_way [of "[PStr ''Sioux'']"] risk_classifier_two_way [of "[]"]
  by blast

section \<open>Centroid\<close>

text \<open>For coordinates the two sums meet no exception, and the audit returns the float
  quotient of the float sum of the latitudes by the number of points, the same for the
  longitudes, and the names that the service gives for that position. How far that
  quotient is from the exact mean of the latitudes is a matter of the rounding of the
  interpreter's floats, which is a parameter here.\<close>

lemma summands_coordinates:
  "list_all2 is_coordinate pts cs \<Longrightarrow>
   comprehension (\<lambda>p. case dict_get p (u ''lat'') of Inl e \<Rightarrow> Inl e | Inr v \<Rightarrow> summand v) pts =
     Inr (map (\<lambda>c. Fin (fst c)) cs) \<and>
   comprehension (\<lambda>p. case dict_get p (u ''lon'') of Inl e \<Rightarrow> Inl e | Inr v \<Rightarrow> summand v) pts =
     Inr (map (\<lambda>c. Fin (snd c)) cs)"
  by (induction pts cs rule: list_all2_induct) (simp_all add: is_coordinate_def dict_get_def)

lemma audit_of_coordinates:
  assumes "list_all2 is_coordinate pts cs" "pts \<noteq> []"
  shows "run_compliance_audit ar net pts =
           Inr (float_div ar (float_sum ar (map (\<lambda>c. Fin (fst c)) cs)) (length pts),
                float_div ar (float_sum ar (map (\<lambda>c. Fin (snd c)) cs)) (length pts),
                indigenous_names
                  (net (float_div ar (float_sum ar (map (\<lambda>c. Fin (fst c)) cs)) (length pts))
                       (float_div ar (float_sum ar (map (\<lambda>c. Fin (snd c)) cs)) (length pts))))"
  using assms(2)
  by (simp add: run_compliance_audit_def py_sum_def summands_coordinates [OF assms(1)]
      num_div_def)

lemma lon_lat_coordinate:
  "is_coordinate p c \<Longrightarrow> lon_lat p = Inr (PList [PNum (Fin (snd c)), PNum (Fin (fst c))])"
  by (simp add: is_coordinate_def lon_lat_def dict_get_def)

lemma ring_of_coordinates:
  "list_all2 is_coordinate pts cs \<Longrightarrow> comprehension lon_lat pts = Inr (ring_of cs)"
  by (induction pts cs rule: list_all2_induct) (simp_all add: ring_of_def lon_lat_coordinate)

section \<open>Export\<close>

lemma geojson_of_coordinates:
  assumes "list_all2 is_coordinate pts cs" and "pts \<noteq> []"
  shows "geojson pts risk tribes =
           Inr (PDict
             [(''type'', PStr ''FeatureCollection''),
              (''features'', PList
                [PDict
                  [(''type'', PStr ''Feature''),
                   (''geometry'', PDict
                      [(''type'', PStr ''Polygon''),
                       (''coordinates'', PList [PList (ring_of cs @ [hd (ring_of cs)])])]),
                   (''properties'', PDict
                      [(''risk'', PStr risk), (''tribes'', PList tribes)])]])])"
proof -
  from assms(2) obtain p ps where pts: "pts = p # ps" by (cases pts) auto
  with assms(1) obtain c cs' where cs: "cs = c # cs'" and pc: "is_coordinate p c"
    by (auto simp: list_all2_Cons1)
  show ?thesis
    unfolding geojson_def ring_of_coordinates [OF assms(1)]
    by (simp add: pts lon_lat_coordinate [OF pc] cs ring_of_def)
qed



section \<open>Territory lookup\<close>

lemma comprehension_raises:
  "x \<in> set xs \<Longrightarrow> f x = Inl e \<Longrightarrow> \<exists>e'. comprehension f xs = Inl e'"
  by (induction xs) (auto split: sum.splits)

lemma comprehension_returns:
  "\<forall>x \<in> set xs. \<exists>y. f x = Inr y \<Longrightarrow>
   \<exists>ys. comprehension f xs = Inr ys \<and> list_all2 (\<lambda>x y. f x = Inr y) xs ys"
  by (induction xs) (auto split: sum.splits)

lemma comprehension_error:
  "comprehension f xs = Inl e \<Longrightarrow> \<exists>x \<in> set xs. f x = Inl e"
  by (induction xs) (auto split: sum.splits)

lemma name_of_lacks: "(\<exists>e. name_of r = Inl e) = lacks_name r"
  by (cases r) (auto simp: name_of_def lacks_name_def dict_get_def split: option.splits py.splits sum.splits)

lemma names_of_list_raises:
  assumes "r \<in> set rs" "lacks_name r"
  shows "\<exists>e. names_of (PList rs) = Inl e"
proof -
  from assms(2) obtain e where "name_of r = Inl e" using name_of_lacks by blast
  with assms(1) show ?thesis by (simp add: names_of_def comprehension_raises)
qed

lemma audit_error_independent:
  "run_compliance_audit ar net pts = Inl e \<Longrightarrow> run_compliance_audit ar net' pts = Inl e"
  by (auto simp: run_compliance_audit_def split: sum.splits)

text \<open>
  C4, as the code has it. The list of names is empty when the request times out or
  finds no connection, when the body of the reply is not JSON, and when an element of
  the returned array lacks the name field. The status code plays no part: a reply is
  treated as the reply with status 200 and the same body would be. The lookup raises
  nothing: an exception of the audit is one it raises whatever the service answers.
\<close>

theorem lookup_failures_give_empty:
  "indigenous_names Timeout = [] \<and>
   indigenous_names ConnectionFailed = [] \<and>
   indigenous_names (Reply status None) = [] \<and>
   (r \<in> set rs \<and> lacks_name r \<longrightarrow> indigenous_names (Reply status (Some (PList rs))) = []) \<and>
   indigenous_names (Reply status body) = indigenous_names (Reply 200 body) \<and>
   (run_compliance_audit ar net pts = Inl e \<longrightarrow> run_compliance_audit ar net' pts = Inl e)"
proof -
  have "indigenous_names (Reply status (Some (PList rs))) = []" if "r \<in> set rs" "lacks_name r"
    using names_of_list_raises [OF that] by (auto simp: indigenous_names_def get_json_def)
  moreover have "run_compliance_audit ar net' pts = Inl e"
    if "run_compliance_audit ar net pts = Inl e"
    using that by (rule audit_error_independent)
  ultimately show ?thesis
    by (simp add: indigenous_names_def get_json_def)
qed

theorem lookup_failures_give_empty_witness:
  "PDict [(''properties'', PDict [])] \<in> set [PDict [(''properties'', PDict [])]] \<and>
   lacks_name (PDict [(''properties'', PDict [])]) \<and>
   indigenous_names (Reply 200 (Some (PList [PDict [(''properties'', PDict [])]]))) = [] \<and>
   run_compliance_audit exact_arith (\<lambda>lat lon. Timeout) [] = Inl ZeroDivisionError \<and>
   run_compliance_audit exact_arith (\<lambda>lat lon. Reply 200 (Some (PList []))) [] =
     Inl ZeroDivisionError"
proof -
  have l: "lacks_name (PDict [(''properties'', PDict [])])"
    by (simp add: lacks_name_def)
  have a: "run_compliance_audit exact_arith (\<lambda>lat lon. Timeout) [] = Inl ZeroDivisionError"
    by (simp add: run_compliance_audit_def py_sum_def num_div_def)
  show ?thesis
    using l a
      lookup_failures_give_empty [where r = "PDict [(''properties'', PDict [])]"
        and rs = "[PDict [(''properties'', PDict [])]]" and status = 200
        and ar = exact_arith
        and net = "\<lambda>lat lon. Timeout" and pts = "[]" and e = ZeroDivisionError
        and net' = "\<lambda>lat lon. Reply 200 (Some (PList []))"]
    by simp
qed

text \<open>A reply with status 500 and a well-formed body: its names are kept.\<close>

theorem non_200_reply_keeps_names:
  "indigenous_names
     (Reply 500 (Some (PList [PDict [(''properties'', PDict [(''Name'', PStr ''Sioux'')])]])))
     \<noteq> []"
  by (simp add: indigenous_names_def get_json_def names_of_def name_of_def dict_get_def)

text \<open>
  C10. The lookup is all or nothing on a returned array. If some element lacks the name
  field, the list of names is empty, whatever names come before that element. If no
  element lacks it, the list holds the name of every element, in order.
\<close>

theorem all_or_nothing:
  "(list_ex lacks_name rs \<longrightarrow> indigenous_names (Reply status (Some (PList rs))) = []) \<and>
   (\<not> list_ex lacks_name rs \<longrightarrow>
      list_all2 (\<lambda>r name. name_of r = Inr name) rs
        (indigenous_names (Reply status (Some (PList rs)))))"
proof (intro conjI impI)
  assume "list_ex lacks_name rs"
  then obtain r where "r \<in> set rs" "lacks_name r" by (auto simp: list_ex_iff)
  from names_of_list_raises [OF this]
  show "indigenous_names (Reply status (Some (PList rs))) = []"
    by (auto simp: indigenous_names_def get_json_def)
next
  assume "\<not> list_ex lacks_name rs"
  then have "\<forall>r \<in> set rs. \<exists>y. name_of r = Inr y"
    using name_of_lacks by (metis list_ex_iff sum.collapse(1) sum.collapse(2))
  from comprehension_returns [OF this]
  show "list_all2 (\<lambda>r name. name_of r = Inr name) rs
        (indigenous_names (Reply status (Some (PList rs))))"
    by (auto simp: indigenous_names_def get_json_def names_of_def)
qed

theorem all_or_nothing_witness:
  "list_ex lacks_name
     [PDict [(''properties'', PDict [(''Name'', PStr ''Sioux'')])],
      PDict [(''properties'', PDict [])]] \<and>
   indigenous_names (Reply 200 (Some (PList
     [PDict [(''properties'', PDict [(''Name'', PStr ''Sioux'')])],
      PDict [(''properties'', PDict [])]]))) = [] \<and>
   \<not> list_ex lacks_name [PDict [(''properties'', PDict [(''Name'', PStr ''Sioux'')])]] \<and>
   indigenous_names (Reply 200 (Some (PList
     [PDict [(''properties'', PDict [(''Name'', PStr ''Sioux'')])]]))) = [PStr ''Sioux'']"
  using all_or_nothing [of "[PDict [(''properties'', PDict [(''Name'', PStr ''Sioux'')])],
      PDict [(''properties'', PDict [])]]" 200]
    all_or_nothing [of "[PDict [(''properties'', PDict [(''Name'', PStr ''Sioux'')])]]" 200]
  by (simp add: lacks_name_def name_of_def dict_get_def list_all2_Cons1)

section \<open>Threshold guard\<close>

lemma py_sum_error: "py_sum ar k pts = Inl e \<Longrightarrow> e = KeyError \<or> e = TypeError"
proof -
  assume "py_sum ar k pts = Inl e"
  then have "comprehension
      (\<lambda>p. case dict_get p k of Inl e \<Rightarrow> Inl e | Inr v \<Rightarrow> summand v) pts = Inl e"
    by (simp add: py_sum_def split: sum.splits)
  then obtain p where "(case dict_get p k of Inl e \<Rightarrow> Inl e | Inr v \<Rightarrow> summand v) = Inl e"
    by (auto dest: comprehension_error)
  then show ?thesis
  proof (cases "dict_get p k")
    case (Inl e1)
    with \<open>(case dict_get p k of Inl e \<Rightarrow> Inl e | Inr v \<Rightarrow> summand v) = Inl e\<close>
    show ?thesis by (auto simp: dict_get_def split: option.splits)
  next
    case (Inr v)
    with \<open>(case dict_get p k of Inl e \<Rightarrow> Inl e | Inr v \<Rightarrow> summand v) = Inl e\<close>
    show ?thesis by (cases v) auto
  qed
qed

lemma audit_no_zero_division:
  assumes "pts \<noteq> []"
  shows "run_compliance_audit ar net pts \<noteq> Inl ZeroDivisionError"
proof
  assume a: "run_compliance_audit ar net pts = Inl ZeroDivisionError"
  from assms have n: "length pts \<noteq> 0" by simp
  from a n show False
    by (auto simp: run_compliance_audit_def num_div_def split: sum.splits dest: py_sum_error)
qed

lemma lon_lat_error: "lon_lat p = Inl e \<Longrightarrow> e = KeyError"
  by (auto simp: lon_lat_def dict_get_def split: option.splits sum.splits)

lemma py_join_error: "py_join sep vs = Inl e \<Longrightarrow> e = TypeError"
  by (induction sep vs rule: py_join.induct) (auto split: sum.splits)

lemma report_data_error: "report_data tribes n = Inl e \<Longrightarrow> e = TypeError"
  by (auto simp: report_data_def split: sum.splits if_splits dest: py_join_error)

lemma geojson_error: "geojson pts risk tribes = Inl e \<Longrightarrow> e = KeyError \<or> e = IndexError"
  by (auto simp: geojson_def split: sum.splits list.splits dest!: comprehension_error lon_lat_error)

lemma display_no_zero_division:
  "exception (main_display ar net operator pts) \<noteq> Some ZeroDivisionError"
proof (cases "3 \<le> length pts")
  case False
  then show ?thesis by (simp add: main_display_def blank_def)
next
  case True
  then have ne: "pts \<noteq> []" by auto
  show ?thesis
  proof (cases "run_compliance_audit ar net pts")
    case (Inl e)
    with audit_no_zero_division [OF ne, of ar net] True show ?thesis
      by (simp add: main_display_def blank_def)
  next
    case (Inr res)
    obtain c_lat c_lon tribes where res: "res = (c_lat, c_lon, tribes)" by (cases res) auto
    show ?thesis
      using True Inr res
      by (auto simp: main_display_def blank_def Let_def split: sum.splits
          dest!: comprehension_error lon_lat_error report_data_error geojson_error)
  qed
qed

lemma py_join_strings: "string_names vs \<Longrightarrow> py_join sep vs = Inr (separated sep (texts vs))"
  by (induction sep vs rule: py_join.induct) (auto simp: string_names_def texts_def)

text \<open>
  C5, as the code has it. With fewer than three points the page shows the placeholder
  note and nothing else: no map, no report, no download, and no exception. No run of
  the display ends in a division by zero. With three or more points that are
  coordinates, and territory names that are strings, the page shows the map (the ring of
  the points, the classifier's colour, centred on the centroid), the four-row report
  and the download of the exported dictionary, and no exception ends the run.
\<close>

theorem below_threshold_guard:
  "(length pts < 3 \<longrightarrow> main_display ar net operator pts = blank\<lparr>info := Some placeholder_text\<rparr>) \<and>
   exception (main_display ar net operator pts) \<noteq> Some ZeroDivisionError \<and>
   (3 \<le> length pts \<and> list_all2 is_coordinate pts cs \<and>
    lat_c = float_div ar (float_sum ar (map (\<lambda>c. Fin (fst c)) cs)) (length pts) \<and>
    lon_c = float_div ar (float_sum ar (map (\<lambda>c. Fin (snd c)) cs)) (length pts) \<and>
    tribes = indigenous_names (net lat_c lon_c) \<and> string_names tribes \<longrightarrow>
      main_display ar net operator pts =
        blank
        \<lparr>chart := Some
           \<lparr>polygon = ring_of cs, fill_color = poly_color tribes, line_color = [0, 0, 0, 200],
            latitude = lat_c, longitude = lon_c, zoom = 14,
            map_style = ''mapbox://styles/mapbox/satellite-v9'',
            tooltip = ''Risk Level: '' @ risk_label tribes @ [CHR 0x0A] @
                      ''Operator: '' @ operator\<rparr>,
         report := Some
           [\<lparr>compliance_pillar = ''Environmental Baseline'',
             item_compared = ''Forest Cover Status'',
             comparison_reading = ''Satellite (Sentinel-2) Overlay'',
             finding = ''Zero forest-to-agriculture conversion detected.'',
             legal_emphasis = ''Satisfies Article 3(a): Ensures the plot is 'deforestation-free' relative to the 2020 cutoff.''\<rparr>,
            \<lparr>compliance_pillar = ''Social Legality'',
             item_compared = ''Land Use Rights'',
             comparison_reading = ''Indigenous Index: '' @
               (if tribes = [] then ''Clear'' else separated '', '' (texts tribes)),
             finding = social_finding tribes,
             legal_emphasis = ''Satisfies Article 3(b): Verifies production complies with local legislation and indigenous rights.''\<rparr>,
            \<lparr>compliance_pillar = ''Traceability'',
             item_compared = ''Geolocation Mandate'',
             comparison_reading = str_nat (length pts) @ '' Survey Vertices'',
             finding = ''WGS84 Compliant'',
             legal_emphasis = ''Satisfies Article 9: Provides specific geolocation coordinates required for EU market entry.''\<rparr>,
            \<lparr>compliance_pillar = ''Data Integrity'',
             item_compared = ''Geometry Topology'',
             comparison_reading = ''Closed Polygon Loop'',
             finding = ''Valid for TRACES'',
             legal_emphasis = ''Ensures the data structure is interoperable with EU Trade Control and Expert Systems (TRACES).''\<rparr>],
         download := Some
           (PDict
             [(''type'', PStr ''FeatureCollection''),
              (''features'', PList
                [PDict
                  [(''type'', PStr ''Feature''),
                   (''geometry'', PDict
                      [(''type'', PStr ''Polygon''),
                       (''coordinates'', PList [PList (ring_of cs @ [hd (ring_of cs)])])]),
                   (''properties'', PDict
                      [(''risk'', PStr (risk_label tribes)), (''tribes'', PList tribes)])]])])\<rparr>)"
  (is "?below \<and> ?nodiv \<and> (?hyps \<longrightarrow> ?shown)")
proof (intro conjI impI)
  assume "length pts < 3"
  then show "main_display ar net operator pts = blank\<lparr>info := Some placeholder_text\<rparr>"
    by (simp add: main_display_def)
next
  show ?nodiv by (rule display_no_zero_division)
next
  assume a: ?hyps
  then have three: "3 \<le> length pts" and coords: "list_all2 is_coordinate pts cs"
    and names: "string_names tribes" by auto
  from three have ne: "pts \<noteq> []" by auto
  have audit: "run_compliance_audit ar net pts = Inr (lat_c, lon_c, tribes)"
    using audit_of_coordinates [OF coords ne, of ar net] a by simp
  have table: "py_join '', '' tribes = Inr (separated '', '' (texts tribes))"
    using names by (rule py_join_strings)
  show ?shown
    using three
    by (simp add: main_display_def audit ring_of_coordinates [OF coords] report_data_def table
        geojson_of_coordinates [OF coords ne])
qed

theorem below_threshold_guard_witness:
  "main_display exact_arith (\<lambda>lat lon. Timeout) ''Global Trade Corp''
     [ [(u ''lat'', PNum (Fin 1)), (u ''lon'', PNum (Fin 2))],
      [(u ''lat'', PNum (Fin 3)), (u ''lon'', PNum (Fin 4))]] =
     blank\<lparr>info := Some placeholder_text\<rparr> \<and>
   list_all2 is_coordinate
     [ [(u ''lat'', PNum (Fin 1)), (u ''lon'', PNum (Fin 2))],
      [(u ''lat'', PNum (Fin 3)), (u ''lon'', PNum (Fin 4))],
      [(u ''lat'', PNum (Fin 5)), (u ''lon'', PNum (Fin 6))]] [(1, 2), (3, 4), (5, 6)] \<and>
   string_names (indigenous_names Timeout) \<and>
   chart (main_display exact_arith (\<lambda>lat lon. Timeout) ''Global Trade Corp''
     [ [(u ''lat'', PNum (Fin 1)), (u ''lon'', PNum (Fin 2))],
      [(u ''lat'', PNum (Fin 3)), (u ''lon'', PNum (Fin 4))],
      [(u ''lat'', PNum (Fin 5)), (u ''lon'', PNum (Fin 6))]]) =
     Some
       \<lparr>polygon = [PList [PNum (Fin 2), PNum (Fin 1)], PList [PNum (Fin 4), PNum (Fin 3)],
                   PList [PNum (Fin 6), PNum (Fin 5)]],
        fill_color = [34, 139, 34, 150], line_color = [0, 0, 0, 200],
        latitude = Fin 3, longitude = Fin 4, zoom = 14,
        map_style = ''mapbox://styles/mapbox/satellite-v9'',
        tooltip = ''Risk Level: Negligible Risk'' @ [CHR 0x0A] @ ''Operator: Global Trade Corp''\<rparr> \<and>
   map comparison_reading (the (report (main_display exact_arith (\<lambda>lat lon. Timeout)
     ''Global Trade Corp''
     [ [(u ''lat'', PNum (Fin 1)), (u ''lon'', PNum (Fin 2))],
      [(u ''lat'', PNum (Fin 3)), (u ''lon'', PNum (Fin 4))],
      [(u ''lat'', PNum (Fin 5)), (u ''lon'', PNum (Fin 6))]]))) =
     [''Satellite (Sentinel-2) Overlay'', ''Indigenous Index: Clear'', ''3 Survey Vertices'',
      ''Closed Polygon Loop''] \<and>
   download (main_display exact_arith (\<lambda>lat lon. Timeout) ''Global Trade Corp''
     [ [(u ''lat'', PNum (Fin 1)), (u ''lon'', PNum (Fin 2))],
      [(u ''lat'', PNum (Fin 3)), (u ''lon'', PNum (Fin 4))],
      [(u ''lat'', PNum (Fin 5)), (u ''lon'', PNum (Fin 6))]]) =
     Some (PDict
       [(''type'', PStr ''FeatureCollection''),
        (''features'', PList
          [PDict
            [(''type'', PStr ''Feature''),
             (''geometry'', PDict
                [(''type'', PStr ''Polygon''),
                 (''coordinates'', PList [PList
                    [PList [PNum (Fin 2), PNum (Fin 1)],
                     PList [PNum (Fin 4), PNum (Fin 3)],
                     PList [PNum (Fin 6), PNum (Fin 5)],
                     PList [PNum (Fin 2), PNum (Fin 1)]]])]),
             (''properties'', PDict
                [(''risk'', PStr ''Negligible Risk''), (''tribes'', PList [])])]])])"
proof -
  let ?two = "[ [(u ''lat'', PNum (Fin 1)), (u ''lon'', PNum (Fin 2))],
      [(u ''lat'', PNum (Fin 3)), (u ''lon'', PNum (Fin 4))]]"
  let ?three = "[ [(u ''lat'', PNum (Fin 1)), (u ''lon'', PNum (Fin 2))],
      [(u ''lat'', PNum (Fin 3)), (u ''lon'', PNum (Fin 4))],
      [(u ''lat'', PNum (Fin 5)), (u ''lon'', PNum (Fin 6))]]"
  let ?cs = "[(1, 2), (3, 4), (5, 6)] :: (real \<times> real) list"
  have c: "list_all2 is_coordinate ?three ?cs"
    by (simp add: is_coordinate_def u_def)
  have la: "Fin 3 = float_div exact_arith (float_sum exact_arith (map (\<lambda>c. Fin (fst c)) ?cs))
      (length ?three)"
    by (simp add: exact_arith_def)
  have lo: "Fin 4 = float_div exact_arith (float_sum exact_arith (map (\<lambda>c. Fin (snd c)) ?cs))
      (length ?three)"
    by (simp add: exact_arith_def)
  have t: "[] = indigenous_names ((\<lambda>lat lon. Timeout) (Fin 3) (Fin 4))"
    by (simp add: indigenous_names_def get_json_def)
  have s: "string_names (indigenous_names Timeout)"
    by (simp add: indigenous_names_def get_json_def string_names_def)
  have s': "string_names []" by (simp add: string_names_def)
  have n: "str_nat (Suc (Suc (Suc 0))) = ''3''" by code_simp
  have below: "main_display exact_arith (\<lambda>lat lon. Timeout) ''Global Trade Corp'' ?two =
      blank\<lparr>info := Some placeholder_text\<rparr>"
    using below_threshold_guard [where pts = ?two and ar = exact_arith
        and net = "\<lambda>lat lon. Timeout" and operator = "''Global Trade Corp''"]
    by simp
  note shown = below_threshold_guard [where pts = ?three and cs = ?cs and ar = exact_arith
        and net = "\<lambda>lat lon. Timeout" and operator = "''Global Trade Corp''"
        and lat_c = "Fin 3" and lon_c = "Fin 4" and tribes = "[]",
        THEN conjunct2, THEN conjunct2, rule_format, OF conjI [OF _ conjI [OF c conjI [OF la
          conjI [OF lo conjI [OF t s']]]]]]
  have three: "3 \<le> length ?three" by simp
  show ?thesis
    using c s below
    by (simp add: shown [OF three] ring_of_def poly_color_def risk_label_def social_finding_def
        n blank_def)
qed

text \<open>A sheet with three rows whose latitude is a text: the import succeeds with three
  points, and the display ends in a TypeError with nothing shown.\<close>

theorem text_latitude_ends_run:
  "length (all_points (fst (ingest caseless (Some (Sheet
      \<lparr>columns = [u ''Lat'', u ''Lon''],
       rows = [ [PStr ''12N'', PNum (Fin 1)], [PStr ''13N'', PNum (Fin 2)],
               [PStr ''14N'', PNum (Fin 3)]]\<rparr>)) initial_state))) = 3 \<and>
   main_display exact_arith (\<lambda>lat lon. Timeout) ''Global Trade Corp''
     (all_points (fst (ingest caseless (Some (Sheet
      \<lparr>columns = [u ''Lat'', u ''Lon''],
       rows = [ [PStr ''12N'', PNum (Fin 1)], [PStr ''13N'', PNum (Fin 2)],
               [PStr ''14N'', PNum (Fin 3)]]\<rparr>)) initial_state))) =
     blank\<lparr>exception := Some TypeError\<rparr>"
proof -
  have imported: "all_points (fst (ingest caseless (Some (Sheet
      \<lparr>columns = [u ''Lat'', u ''Lon''],
       rows = [ [PStr ''12N'', PNum (Fin 1)], [PStr ''13N'', PNum (Fin 2)],
               [PStr ''14N'', PNum (Fin 3)]]\<rparr>)) initial_state)) =
      [ [(u ''lat'', PStr ''12N''), (u ''lon'', PNum (Fin 1))],
       [(u ''lat'', PStr ''13N''), (u ''lon'', PNum (Fin 2))],
       [(u ''lat'', PStr ''14N''), (u ''lon'', PNum (Fin 3))]]"
    by code_simp
  have audit: "run_compliance_audit exact_arith (\<lambda>lat lon. Timeout)
      [ [(u ''lat'', PStr ''12N''), (u ''lon'', PNum (Fin 1))],
       [(u ''lat'', PStr ''13N''), (u ''lon'', PNum (Fin 2))],
       [(u ''lat'', PStr ''14N''), (u ''lon'', PNum (Fin 3))]] = Inl TypeError"
    by (simp add: run_compliance_audit_def py_sum_def dict_get_def)
  show ?thesis
    unfolding imported by (simp add: main_display_def audit)
qed

section \<open>Spreadsheet ingestion\<close>

lemma first_index_find:
  "first_index P xs = Some i \<Longrightarrow> i < length xs \<and> find P xs = Some (xs ! i) \<and> P (xs ! i)"
  by (induction xs arbitrary: i) (auto split: if_splits)

lemma first_index_none: "first_index P xs = None \<Longrightarrow> find P xs = None"
  by (induction xs) (auto split: if_splits)

lemma contains_nonempty: "contains (c # cs) s \<Longrightarrow> s \<noteq> []"
  by (cases s) auto

lemma lat_lon_labels:
  "u ''lat'' \<noteq> u ''lon''" "u ''lon'' \<noteq> u ''lat''"
  "\<exists>c cs. u ''lat'' = c # cs" "\<exists>c cs. u ''lon'' = c # cs"
  by (simp_all add: u_def)

lemma positions_of_snoc:
  "positions_of (xs @ [x]) l = positions_of xs l @ (if x = l then [length xs] else [])"
proof -
  have "filter (\<lambda>i. (xs @ [x]) ! i = l) [0..<length xs] = filter (\<lambda>i. xs ! i = l) [0..<length xs]"
    by (rule filter_cong) (auto simp: nth_append)
  then show ?thesis by (simp add: positions_of_def)
qed

lemma length_positions_of: "length (positions_of xs l) = count_list xs l"
proof (induction xs rule: rev_induct)
  case Nil
  then show ?case by (simp add: positions_of_def)
next
  case (snoc x xs)
  then show ?case by (simp add: positions_of_snoc)
qed

lemma position_member: "i < length xs \<Longrightarrow> i \<in> set (positions_of xs (xs ! i))"
  by (simp add: positions_of_def)

lemma positions_of_unique:
  assumes "i < length xs" "count_list xs (xs ! i) = 1"
  shows "positions_of xs (xs ! i) = [i]"
proof -
  from assms(2) have "length (positions_of xs (xs ! i)) = 1" by (simp add: length_positions_of)
  then obtain k where k: "positions_of xs (xs ! i) = [k]"
    by (cases "positions_of xs (xs ! i)") auto
  with position_member [OF assms(1)] show ?thesis by simp
qed

lemma py_dict_two: "k1 \<noteq> k2 \<Longrightarrow> py_dict [(k1, v1), (k2, v2)] = [(k1, v1), (k2, v2)]"
  by (simp add: py_dict_def)

lemma ingest_found:
  assumes "find (contains (u ''lat'')) (normalised lw df) = Some lat_col"
    and "find (contains (u ''lon'')) (normalised lw df) = Some lon_col"
    and "contains (u ''lat'') lat_col" "contains (u ''lon'') lon_col"
    and "pts = to_dict_records (rename_columns (py_dict [(lat_col, u ''lat''), (lon_col, u ''lon'')])
           (head 100 (dropna (select_columns (df\<lparr>columns := normalised lw df\<rparr>) [lat_col, lon_col]))))"
  shows "ingest lw (Some (Sheet df)) s =
           (s\<lparr>excel_points := pts\<rparr>, [Success (''Loaded '' @ str_nat (length pts) @ '' points.'')])"
proof -
  from assms(3,4) lat_lon_labels(3,4) have "lat_col \<noteq> []" "lon_col \<noteq> []"
    by (auto dest: contains_nonempty)
  then show ?thesis
    using assms(1,2) unfolding assms(5) ingest_def normalised_def
    by (simp add: Let_def)
qed

lemma ingest_missing_column:
  assumes "find (contains (u ''lat'')) (normalised lw df) = None \<or>
           find (contains (u ''lon'')) (normalised lw df) = None"
  shows "ingest lw (Some (Sheet df)) s = (s, [])"
  using assms unfolding ingest_def normalised_def
  by (auto simp: Let_def split: option.splits)

lemma str_nat_zero: "str_nat 0 = ''0''"
  by code_simp

lemma ingest_shape:
  "(\<exists>ms. (\<forall>s. ingest lw uploaded_file s = (s, ms)) \<and> (\<forall>m. ms \<noteq> [Success m])) \<or>
   (\<exists>pts m. \<forall>s. ingest lw uploaded_file s = (s\<lparr>excel_points := pts\<rparr>, [Success m]))"
proof (cases uploaded_file)
  case None
  then show ?thesis by (simp add: ingest_def)
next
  case (Some up)
  show ?thesis
  proof (cases up)
    case (Unreadable e)
    with Some show ?thesis by (simp add: ingest_def)
  next
    case (Sheet df)
    show ?thesis
    proof (cases "find (contains (u ''lat'')) (normalised lw df) = None \<or>
                  find (contains (u ''lon'')) (normalised lw df) = None")
      case True
      then have "\<forall>s. ingest lw (Some (Sheet df)) s = (s, [])"
        by (simp add: ingest_missing_column)
      with Some Sheet show ?thesis by auto
    next
      case False
      then obtain lat_col lon_col
        where f: "find (contains (u ''lat'')) (normalised lw df) = Some lat_col"
          "find (contains (u ''lon'')) (normalised lw df) = Some lon_col"
        by auto
      then have c: "contains (u ''lat'') lat_col" "contains (u ''lon'') lon_col"
        by (auto simp: find_Some_iff)
      from ingest_found [OF f c refl] Some Sheet show ?thesis by blast
    qed
  qed
qed

text \<open>Where the code does what C6 says: the two picked columns are different columns
  and no other column carries the name of either. Then the imported points are the first
  100 of the rows that have a value in both columns, each as a point with the first
  column's cell as latitude and the second's as longitude.\<close>

lemma import_two_columns:
  assumes lat: "first_index (contains (u ''lat'')) (normalised lw df) = Some i"
    and lon: "first_index (contains (u ''lon'')) (normalised lw df) = Some j"
    and ij: "i \<noteq> j"
    and ui: "count_list (normalised lw df) (normalised lw df ! i) = 1"
    and uj: "count_list (normalised lw df) (normalised lw df ! j) = 1"
  shows "ingest lw (Some (Sheet df)) s =
           (s\<lparr>excel_points := first_rows i j (rows df)\<rparr>,
            [Success (''Loaded '' @ str_nat (length (first_rows i j (rows df))) @ '' points.'')])"
proof -
  let ?names = "normalised lw df"
  let ?la = "?names ! i" and ?lo = "?names ! j"
  from first_index_find [OF lat]
  have i: "i < length ?names" and fi: "find (contains (u ''lat'')) ?names = Some ?la"
    and ci: "contains (u ''lat'') ?la" by auto
  from first_index_find [OF lon]
  have j: "j < length ?names" and fj: "find (contains (u ''lon'')) ?names = Some ?lo"
    and cj: "contains (u ''lon'') ?lo" by auto
  have pi: "positions_of ?names ?la = [i]" using i ui by (rule positions_of_unique)
  have pj: "positions_of ?names ?lo = [j]" using j uj by (rule positions_of_unique)
  have ne: "?la \<noteq> ?lo"
  proof
    assume "?la = ?lo"
    with position_member [OF j] pi ij show False by simp
  qed
  then have ne': "?lo \<noteq> ?la" by simp
  have sel: "select_columns (df\<lparr>columns := ?names\<rparr>) [?la, ?lo] =
               \<lparr>columns = [?la, ?lo], rows = map (\<lambda>r. [cell_at r i, cell_at r j]) (rows df)\<rparr>"
    by (simp add: select_columns_def pi pj)
  have "to_dict_records (rename_columns (py_dict [(?la, u ''lat''), (?lo, u ''lon'')])
           (head 100 (dropna (select_columns (df\<lparr>columns := ?names\<rparr>) [?la, ?lo])))) =
        first_rows i j (rows df)"
    unfolding sel py_dict_two [OF ne]
    by (simp add: rename_columns_def head_def dropna_def to_dict_records_def first_rows_def
        filter_map take_map o_def py_dict_def ne' lat_lon_labels(1,2))
  from ingest_found [OF fi fj ci cj this [symmetric]] show ?thesis .
qed

text \<open>The scenario of the specification: columns Lat and Long, five complete rows and
  one row without latitude give five points.\<close>

lemma five_of_six_rows:
  "ingest caseless (Some (Sheet
        \<lparr>columns = [u ''Lat'', u ''Long''],
         rows = [ [PNum (Fin 1), PNum (Fin 2)], [PNum (Fin 3), PNum (Fin 4)],
                 [PNum NaN, PNum (Fin 6)], [PNum (Fin 7), PNum (Fin 8)],
                 [PNum (Fin 9), PNum (Fin 10)], [PNum (Fin 11), PNum (Fin 12)]]\<rparr>))
     initial_state =
     (\<lparr>manual_points = [],
       excel_points =
         [ [(u ''lat'', PNum (Fin 1)), (u ''lon'', PNum (Fin 2))],
          [(u ''lat'', PNum (Fin 3)), (u ''lon'', PNum (Fin 4))],
          [(u ''lat'', PNum (Fin 7)), (u ''lon'', PNum (Fin 8))],
          [(u ''lat'', PNum (Fin 9)), (u ''lon'', PNum (Fin 10))],
          [(u ''lat'', PNum (Fin 11)), (u ''lon'', PNum (Fin 12))]]\<rparr>,
      [Success ''Loaded 5 points.''])"
  by code_simp

text \<open>
  C6. A table whose only column is named Lat/Long: its name contains lat and contains
  lon, so it is picked for both. The dictionary of line 30 that renames the picked
  columns then has one key, with the value \<^verbatim>\<open>'lon'\<close>, and the row is imported as a point
  with a longitude and no latitude, where the specification gives it both fields.
\<close>

theorem one_column_picked_twice:
  "first_index (contains (u ''lat'')) (normalised caseless
      \<lparr>columns = [u ''Lat/Long''], rows = [ [PNum (Fin 1)]]\<rparr>) = Some 0 \<and>
   first_index (contains (u ''lon'')) (normalised caseless
      \<lparr>columns = [u ''Lat/Long''], rows = [ [PNum (Fin 1)]]\<rparr>) = Some 0 \<and>
   excel_points (fst (ingest caseless (Some (Sheet
      \<lparr>columns = [u ''Lat/Long''], rows = [ [PNum (Fin 1)]]\<rparr>)) initial_state)) =
     [ [(u ''lon'', PNum (Fin 1))]] \<and>
   excel_points (fst (ingest caseless (Some (Sheet
      \<lparr>columns = [u ''Lat/Long''], rows = [ [PNum (Fin 1)]]\<rparr>)) initial_state)) \<noteq>
     first_rows 0 0 [ [PNum (Fin 1)]]"
  by code_simp

text \<open>Two columns that carry the same name after normalising (the first ends in a
  no-break space, which \<^verbatim>\<open>strip\<close> removes): both are selected under that name, a row
  is dropped when either misses a value, and the imported latitude is the cell of the
  later one.\<close>

lemma same_name_after_normalising:
  "excel_points (fst (ingest caseless (Some (Sheet
      \<lparr>columns = [u ''Lat'' @ [160], u ''lat'', u ''Lon''],
       rows = [ [PNum (Fin 1), PNum (Fin 7), PNum (Fin 2)],
               [PNum (Fin 3), PNum NaN, PNum (Fin 4)]]\<rparr>)) initial_state)) =
     [ [(u ''lat'', PNum (Fin 7)), (u ''lon'', PNum (Fin 2))]]"
  by code_simp

text \<open>
  C7. An upload never touches the manual points. Uploading the same file a second time
  changes nothing: the state and the messages are those of the first upload. After a
  successful upload the imported points are the same whatever was imported before.
\<close>

theorem upload_overwrites:
  "manual_points (fst (ingest lw uploaded_file s)) = manual_points s \<and>
   ingest lw uploaded_file (fst (ingest lw uploaded_file s)) = ingest lw uploaded_file s \<and>
   (snd (ingest lw uploaded_file s) = [Success m] \<longrightarrow>
      excel_points (fst (ingest lw uploaded_file s)) =
      excel_points (fst (ingest lw uploaded_file s')))"
  using ingest_shape [of lw uploaded_file] by auto

theorem upload_overwrites_witness:
  "snd (ingest caseless
        (Some (Sheet \<lparr>columns = [u ''lat'', u ''lon''], rows = [ [PNum (Fin 1), PNum (Fin 2)]]\<rparr>))
        \<lparr>manual_points = [ [(u ''lat'', PNum (Fin 5)), (u ''lon'', PNum (Fin 6))]],
         excel_points = [ [(u ''lat'', PNum (Fin 7)), (u ''lon'', PNum (Fin 8))]]\<rparr>) =
     [Success ''Loaded 1 points.''] \<and>
   excel_points (fst
     (ingest caseless
        (Some (Sheet \<lparr>columns = [u ''lat'', u ''lon''], rows = [ [PNum (Fin 1), PNum (Fin 2)]]\<rparr>))
        \<lparr>manual_points = [ [(u ''lat'', PNum (Fin 5)), (u ''lon'', PNum (Fin 6))]],
         excel_points = [ [(u ''lat'', PNum (Fin 7)), (u ''lon'', PNum (Fin 8))]]\<rparr>)) =
   excel_points (fst
     (ingest caseless
        (Some (Sheet \<lparr>columns = [u ''lat'', u ''lon''], rows = [ [PNum (Fin 1), PNum (Fin 2)]]\<rparr>))
        initial_state))"
proof -
  have m: "snd (ingest caseless
        (Some (Sheet \<lparr>columns = [u ''lat'', u ''lon''], rows = [ [PNum (Fin 1), PNum (Fin 2)]]\<rparr>))
        \<lparr>manual_points = [ [(u ''lat'', PNum (Fin 5)), (u ''lon'', PNum (Fin 6))]],
         excel_points = [ [(u ''lat'', PNum (Fin 7)), (u ''lon'', PNum (Fin 8))]]\<rparr>) =
     [Success ''Loaded 1 points.'']"
    by code_simp
  with upload_overwrites [where lw = caseless and uploaded_file =
        "Some (Sheet \<lparr>columns = [u ''lat'', u ''lon''], rows = [ [PNum (Fin 1), PNum (Fin 2)]]\<rparr>)"
      and s = "\<lparr>manual_points = [ [(u ''lat'', PNum (Fin 5)), (u ''lon'', PNum (Fin 6))]],
         excel_points = [ [(u ''lat'', PNum (Fin 7)), (u ''lon'', PNum (Fin 8))]]\<rparr>"
      and m = "''Loaded 1 points.''" and s' = initial_state]
  show ?thesis by blast
qed

text \<open>
  C8, as the code has it. When the reader raises, the state is unchanged and one error
  message with the text of the exception is shown. When no column name contains lat, or
  none contains lon, the state is unchanged and no message is shown.
\<close>

theorem ingestion_errors_leave_points:
  "ingest lw (Some (Unreadable e)) s = (s, [Error (''Excel Error: '' @ e)]) \<and>
   (\<not> list_ex (contains (u ''lat'')) (normalised lw df) \<or>
    \<not> list_ex (contains (u ''lon'')) (normalised lw df) \<longrightarrow>
      ingest lw (Some (Sheet df)) s = (s, []))"
proof (intro conjI impI)
  show "ingest lw (Some (Unreadable e)) s = (s, [Error (''Excel Error: '' @ e)])"
    by (simp add: ingest_def)
next
  assume "\<not> list_ex (contains (u ''lat'')) (normalised lw df) \<or>
    \<not> list_ex (contains (u ''lon'')) (normalised lw df)"
  then have "find (contains (u ''lat'')) (normalised lw df) = None \<or>
    find (contains (u ''lon'')) (normalised lw df) = None"
    by (auto simp: find_None_iff list_ex_iff)
  then show "ingest lw (Some (Sheet df)) s = (s, [])" by (rule ingest_missing_column)
qed

theorem ingestion_errors_leave_points_witness:
  "\<not> list_ex (contains (u ''lon'')) (normalised caseless
       \<lparr>columns = [u ''Latitude'', u ''Height''], rows = [ [PNum (Fin 1), PNum (Fin 2)]]\<rparr>) \<and>
   ingest caseless (Some (Sheet
       \<lparr>columns = [u ''Latitude'', u ''Height''], rows = [ [PNum (Fin 1), PNum (Fin 2)]]\<rparr>))
     \<lparr>manual_points = [],
      excel_points = [ [(u ''lat'', PNum (Fin 7)), (u ''lon'', PNum (Fin 8))]]\<rparr> =
     (\<lparr>manual_points = [],
       excel_points = [ [(u ''lat'', PNum (Fin 7)), (u ''lon'', PNum (Fin 8))]]\<rparr>, [])"
proof -
  have a: "\<not> list_ex (contains (u ''lon'')) (normalised caseless
       \<lparr>columns = [u ''Latitude'', u ''Height''], rows = [ [PNum (Fin 1), PNum (Fin 2)]]\<rparr>)"
    by code_simp
  with ingestion_errors_leave_points [where lw = caseless and df =
        "\<lparr>columns = [u ''Latitude'', u ''Height''], rows = [ [PNum (Fin 1), PNum (Fin 2)]]\<rparr>"
      and s = "\<lparr>manual_points = [],
               excel_points = [ [(u ''lat'', PNum (Fin 7)), (u ''lon'', PNum (Fin 8))]]\<rparr>"]
  show ?thesis by blast
qed

text \<open>A table without a longitude column: nothing is shown in the sidebar.\<close>

theorem missing_column_shows_nothing:
  "\<not> list_ex (contains (u ''lon'')) (normalised caseless
       \<lparr>columns = [u ''Latitude'', u ''Height''], rows = [ [PNum (Fin 1), PNum (Fin 2)]]\<rparr>) \<and>
   snd (ingest caseless (Some (Sheet
       \<lparr>columns = [u ''Latitude'', u ''Height''], rows = [ [PNum (Fin 1), PNum (Fin 2)]]\<rparr>))
     initial_state) = []"
  by code_simp

text \<open>
  C9. When a latitude and a longitude column are found and every row misses a value in
  one of them (in particular when there are no rows), the upload succeeds: the imported
  points become the empty list, whatever was imported before, and the message reports 0
  loaded points. When a column is missing the imported points stay as they were.
\<close>

theorem empty_import_is_success:
  "(first_index (contains (u ''lat'')) (normalised lw df) = Some i \<and>
    first_index (contains (u ''lon'')) (normalised lw df) = Some j \<and>
    (\<forall>r \<in> set (rows df). isna (cell_at r i) \<or> isna (cell_at r j)) \<longrightarrow>
      ingest lw (Some (Sheet df)) s = (s\<lparr>excel_points := []\<rparr>, [Success ''Loaded 0 points.''])) \<and>
   (first_index (contains (u ''lat'')) (normalised lw df) = None \<or>
    first_index (contains (u ''lon'')) (normalised lw df) = None \<longrightarrow>
      excel_points (fst (ingest lw (Some (Sheet df)) s)) = excel_points s)"
proof (intro conjI impI)
  assume a: "first_index (contains (u ''lat'')) (normalised lw df) = Some i \<and>
    first_index (contains (u ''lon'')) (normalised lw df) = Some j \<and>
    (\<forall>r \<in> set (rows df). isna (cell_at r i) \<or> isna (cell_at r j))"
  let ?names = "normalised lw df"
  let ?la = "?names ! i" and ?lo = "?names ! j"
  from a first_index_find [of "contains (u ''lat'')" ?names i]
  have i: "i < length ?names" and fi: "find (contains (u ''lat'')) ?names = Some ?la"
    and ci: "contains (u ''lat'') ?la" by auto
  from a first_index_find [of "contains (u ''lon'')" ?names j]
  have j: "j < length ?names" and fj: "find (contains (u ''lon'')) ?names = Some ?lo"
    and cj: "contains (u ''lon'') ?lo" by auto
  let ?idxs = "positions_of ?names ?la @ positions_of ?names ?lo"
  have mem: "i \<in> set ?idxs" "j \<in> set ?idxs"
    using position_member [OF i] position_member [OF j] by auto
  have "list_ex isna (map (cell_at r) ?idxs)" if "r \<in> set (rows df)" for r
  proof -
    from a that have "isna (cell_at r i) \<or> isna (cell_at r j)" by blast
    moreover have "cell_at r i \<in> set (map (cell_at r) ?idxs)"
      and "cell_at r j \<in> set (map (cell_at r) ?idxs)"
      using mem by (simp_all only: set_map imageI)
    ultimately show ?thesis unfolding list_ex_iff by blast
  qed
  then have "filter (\<lambda>r. \<not> list_ex isna r) (map (\<lambda>r. map (cell_at r) ?idxs) (rows df)) = []"
    by (auto simp: filter_empty_conv)
  then have "to_dict_records (rename_columns (py_dict [(?la, u ''lat''), (?lo, u ''lon'')])
           (head 100 (dropna (select_columns (df\<lparr>columns := ?names\<rparr>) [?la, ?lo])))) = []"
    by (simp add: select_columns_def dropna_def head_def rename_columns_def to_dict_records_def)
  from ingest_found [OF fi fj ci cj this [symmetric], of s]
  show "ingest lw (Some (Sheet df)) s = (s\<lparr>excel_points := []\<rparr>, [Success ''Loaded 0 points.''])"
    by (simp add: str_nat_zero)
next
  assume "first_index (contains (u ''lat'')) (normalised lw df) = None \<or>
    first_index (contains (u ''lon'')) (normalised lw df) = None"
  then have "find (contains (u ''lat'')) (normalised lw df) = None \<or>
    find (contains (u ''lon'')) (normalised lw df) = None"
    by (auto dest: first_index_none)
  then show "excel_points (fst (ingest lw (Some (Sheet df)) s)) = excel_points s"
    by (simp add: ingest_missing_column)
qed

theorem empty_import_is_success_witness:
  "first_index (contains (u ''lat'')) (normalised caseless
       \<lparr>columns = [u ''Lat'', u ''Lon''], rows = []\<rparr>) = Some 0 \<and>
   first_index (contains (u ''lon'')) (normalised caseless
       \<lparr>columns = [u ''Lat'', u ''Lon''], rows = []\<rparr>) = Some 1 \<and>
   ingest caseless (Some (Sheet \<lparr>columns = [u ''Lat'', u ''Lon''], rows = []\<rparr>))
     \<lparr>manual_points = [],
      excel_points = [ [(u ''lat'', PNum (Fin 7)), (u ''lon'', PNum (Fin 8))]]\<rparr> =
     (\<lparr>manual_points = [], excel_points = []\<rparr>, [Success ''Loaded 0 points.'']) \<and>
   first_index (contains (u ''lon'')) (normalised caseless
       \<lparr>columns = [u ''Lat''], rows = []\<rparr>) = None \<and>
   excel_points (fst (ingest caseless (Some (Sheet \<lparr>columns = [u ''Lat''], rows = []\<rparr>))
     \<lparr>manual_points = [],
      excel_points = [ [(u ''lat'', PNum (Fin 7)), (u ''lon'', PNum (Fin 8))]]\<rparr>)) =
     [ [(u ''lat'', PNum (Fin 7)), (u ''lon'', PNum (Fin 8))]]"
proof -
  have i: "first_index (contains (u ''lat'')) (normalised caseless
       \<lparr>columns = [u ''Lat'', u ''Lon''], rows = []\<rparr>) = Some 0"
    by code_simp
  have j: "first_index (contains (u ''lon'')) (normalised caseless
       \<lparr>columns = [u ''Lat'', u ''Lon''], rows = []\<rparr>) = Some 1"
    by code_simp
  have n: "first_index (contains (u ''lon'')) (normalised caseless
       \<lparr>columns = [u ''Lat''], rows = []\<rparr>) = None"
    by code_simp
  from i j n
    empty_import_is_success [where lw = caseless
      and df = "\<lparr>columns = [u ''Lat'', u ''Lon''], rows = []\<rparr>"
      and i = 0 and j = 1
      and s = "\<lparr>manual_points = [],
               excel_points = [ [(u ''lat'', PNum (Fin 7)), (u ''lon'', PNum (Fin 8))]]\<rparr>"]
    empty_import_is_success [where lw = caseless
      and df = "\<lparr>columns = [u ''Lat''], rows = []\<rparr>"
      and s = "\<lparr>manual_points = [],
               excel_points = [ [(u ''lat'', PNum (Fin 7)), (u ''lon'', PNum (Fin 8))]]\<rparr>"]
  show ?thesis by simp
qed

end
